theory Spec2Isabelle
  imports Main "HOL-Library.Word" "HOL-Library.Sublist" "HOL-Library.Multiset"
begin

section \<open>JavaScript values used by the document hub\<close>

text \<open>
  A JavaScript string is a sequence of UTF-16 code units. String equality (\<open>===\<close>) is
  equality of these sequences, hence case-sensitive. ASCII literals of the source are
  written with \<open>ascii\<close>; the Chinese dictionary values are written as their code units.
\<close>

type_synonym jsstring = "16 word list"

definition ascii :: "string \<Rightarrow> jsstring" where
  "ascii s = map of_char s"

text \<open>
  \<open>WhiteSpace\<close> and \<open>LineTerminator\<close> of ECMAScript: the code units removed by
  \<open>String.prototype.trim\<close> and skipped by \<open>parseInt\<close>.
\<close>

definition is_whitespace :: "16 word \<Rightarrow> bool" where
  "is_whitespace u =
     (u \<in> set [0x09, 0x0A, 0x0B, 0x0C, 0x0D, 0x20, 0xA0, 0x1680,
                0x2028, 0x2029, 0x202F, 0x205F, 0x3000, 0xFEFF]
      \<or> (0x2000 \<le> u \<and> u \<le> 0x200A))"

text \<open>\<open>s.trim()\<close>: leading and trailing white space removed.\<close>

definition trim :: "jsstring \<Rightarrow> jsstring" where
  "trim s = rev (dropWhile is_whitespace (rev (dropWhile is_whitespace s)))"

text \<open>
  \<open>s.toLowerCase()\<close>. The model maps the letters A-Z to a-z and leaves every other
  code unit alone, which is what JavaScript does on the ASCII and CJK text of this
  program's vocabulary. The general theorems below never look inside \<open>toLowerCase\<close>.
\<close>

definition lower_unit :: "16 word \<Rightarrow> 16 word" where
  "lower_unit u = (if 0x41 \<le> u \<and> u \<le> 0x5A then u + 0x20 else u)"

definition toLowerCase :: "jsstring \<Rightarrow> jsstring" where
  "toLowerCase s = map lower_unit s"

text \<open>
  \<open>s.includes(t)\<close>, named \<open>includes_str\<close> here: \<open>t\<close> occurs in \<open>s\<close> as a contiguous run
  of code units. The empty string occurs in every string.
\<close>

fun includes_str :: "jsstring \<Rightarrow> jsstring \<Rightarrow> bool" where
  "includes_str [] t = (t = [])"
| "includes_str (x # xs) t = (prefix t (x # xs) \<or> includes_str xs t)"

text \<open>
  Numbers. The only numbers of the program are document years, the result of
  \<open>parseInt\<close>, timestamps and scores. Integers of magnitude below \<open>2 ^ 53\<close> are exact
  in JavaScript, and a document year is such an integer, so a number is an integer or
  \<open>NaN\<close>; \<open>===\<close> never holds for \<open>NaN\<close>. A longer numeral read by \<open>parseInt\<close> is
  rounded to a number that is still beyond every document year, so the comparison
  with the exact integer has the same outcome.
\<close>

datatype jsnumber = NaN | Num int

fun strict_equals :: "jsnumber \<Rightarrow> jsnumber \<Rightarrow> bool" where
  "strict_equals (Num a) (Num b) = (a = b)"
| "strict_equals _ _ = False"

text \<open>
  \<open>parseInt(string)\<close> with no radix, after ECMAScript: skip leading white space, take an
  optional sign, take the prefix \<open>0x\<close> or \<open>0X\<close> as radix 16 (radix 10 otherwise), read
  the longest run of digits of that radix and ignore whatever follows; no digit at all
  gives \<open>NaN\<close>. The model returns the exact integer of the digits read, which is the
  number the code gets as long as its magnitude is at most \<open>2 ^ 53\<close>.
\<close>

definition digit_value :: "16 word \<Rightarrow> nat option" where
  "digit_value u =
     (if 0x30 \<le> u \<and> u \<le> 0x39 then Some (unat u - 0x30)
      else if 0x61 \<le> u \<and> u \<le> 0x7A then Some (unat u - 0x61 + 10)
      else if 0x41 \<le> u \<and> u \<le> 0x5A then Some (unat u - 0x41 + 10)
      else None)"

definition is_digit_of :: "nat \<Rightarrow> 16 word \<Rightarrow> bool" where
  "is_digit_of R u = (case digit_value u of Some d \<Rightarrow> d < R | None \<Rightarrow> False)"

definition digits_value :: "nat \<Rightarrow> jsstring \<Rightarrow> nat" where
  "digits_value R Z =
     foldl (\<lambda>acc u. acc * R + (case digit_value u of Some d \<Rightarrow> d | None \<Rightarrow> 0)) 0 Z"

fun strip_sign :: "jsstring \<Rightarrow> int \<times> jsstring" where
  "strip_sign [] = (1, [])"
| "strip_sign (u # S) =
     (if u = 0x2D then (- 1, S) else if u = 0x2B then (1, S) else (1, u # S))"

fun strip_radix_prefix :: "jsstring \<Rightarrow> nat \<times> jsstring" where
  "strip_radix_prefix (a # b # S) =
     (if a = 0x30 \<and> (b = 0x78 \<or> b = 0x58) then (16, S) else (10, a # b # S))"
| "strip_radix_prefix S = (10, S)"

definition parseInt :: "jsstring \<Rightarrow> jsnumber" where
  "parseInt string =
     (let (sign, S) = strip_sign (dropWhile is_whitespace string);
          (R, S') = strip_radix_prefix S;
          Z = takeWhile (is_digit_of R) S'
      in if Z = [] then NaN else Num (sign * int (digits_value R Z)))"

text \<open>
  Property access \<open>obj[key]\<close> on an object literal used as a dictionary. The literal's
  own properties are its entries; every other key is looked up on \<open>Object.prototype\<close>,
  whose members (\<open>constructor\<close>, \<open>toString\<close>, ...) are functions or objects, not
  strings; a key found nowhere gives \<open>undefined\<close>.
\<close>

datatype jsvalue = Undefined | Str jsstring | Inherited

definition object_prototype_names :: "jsstring list" where
  "object_prototype_names = map ascii
     [''constructor'', ''hasOwnProperty'', ''isPrototypeOf'', ''propertyIsEnumerable'',
      ''toLocaleString'', ''toString'', ''valueOf'', ''__proto__'',
      ''__defineGetter__'', ''__defineSetter__'', ''__lookupGetter__'', ''__lookupSetter__'']"

definition get_property :: "(jsstring \<times> jsstring) list \<Rightarrow> jsstring \<Rightarrow> jsvalue" where
  "get_property obj key =
     (case map_of obj key of
        Some v \<Rightarrow> Str v
      | None \<Rightarrow> if key \<in> set object_prototype_names then Inherited else Undefined)"

text \<open>Truthiness, as tested by \<open>&&\<close> and \<open>if\<close>: \<open>undefined\<close> and the empty string are falsy.\<close>

fun truthy :: "jsvalue \<Rightarrow> bool" where
  "truthy Undefined = False"
| "truthy (Str s) = (s \<noteq> [])"
| "truthy Inherited = True"

text \<open>
  A method call on a value that has no such method throws a \<open>TypeError\<close>; only strings
  have \<open>toLowerCase\<close>.
\<close>

datatype error = TypeError

fun call_toLowerCase :: "jsvalue \<Rightarrow> error + jsstring" where
  "call_toLowerCase (Str s) = Inr (toLowerCase s)"
| "call_toLowerCase _ = Inl TypeError"

text \<open>
  \<open>array.map(f)\<close> where the callback may throw: the first exception ends the call.
\<close>

fun map_throwing :: "('a \<Rightarrow> error + 'b) \<Rightarrow> 'a list \<Rightarrow> error + 'b list" where
  "map_throwing f [] = Inr []"
| "map_throwing f (x # xs) =
     (case f x of
        Inl e \<Rightarrow> Inl e
      | Inr y \<Rightarrow> (case map_throwing f xs of Inl e \<Rightarrow> Inl e | Inr ys \<Rightarrow> Inr (y # ys)))"

text \<open>
  \<open>array.sort(compare)\<close>: the sort of ECMAScript 2019 is stable, and with a consistent
  comparator its result is the one of insertion sort: \<open>a\<close> stays before \<open>b\<close> unless
  \<open>compare(a, b) > 0\<close>.
\<close>

fun insert_sorted :: "('a \<Rightarrow> 'a \<Rightarrow> int) \<Rightarrow> 'a \<Rightarrow> 'a list \<Rightarrow> 'a list" where
  "insert_sorted compare a [] = [a]"
| "insert_sorted compare a (b # bs) =
     (if compare a b \<le> 0 then a # b # bs else b # insert_sorted compare a bs)"

definition array_sort :: "('a \<Rightarrow> 'a \<Rightarrow> int) \<Rightarrow> 'a list \<Rightarrow> 'a list" where
  "array_sort compare xs = foldr (insert_sorted compare) xs []"

section \<open>Translations (src/index.tsx, lines 58-97)\<close>

datatype Category = departments | ministries | docTypes | statuses

fun translationsMap :: "Category \<Rightarrow> (jsstring \<times> jsstring) list" where
  "translationsMap departments =
     [(ascii ''Executive Committee'', [0x4E8B, 0x5DE5, 0x59D4, 0x54E1, 0x6703]),
      (ascii ''Missions Department'', [0x5BA3, 0x6559, 0x90E8]),
      (ascii ''Nurture & Education Department'', [0x57F9, 0x80B2, 0x90E8]),
      (ascii ''Pastoral Department (Adult Zone)'',
         [0x7267, 0x990A, 0x90E8, 0x6210, 0x4EBA, 0x7267, 0x5340]),
      (ascii ''Pastoral Department (Youth Zone)'',
         [0x7267, 0x990A, 0x90E8, 0x9752, 0x5C11, 0x5E74, 0x7267, 0x5340]),
      (ascii ''Pastoral Department (Children Zone)'',
         [0x7267, 0x990A, 0x90E8, 0x5152, 0x7AE5, 0x7267, 0x5340]),
      (ascii ''Admin & Resources Department'', [0x884C, 0x653F, 0x8CC7, 0x6E90, 0x90E8]),
      (ascii ''Worship Department'', [0x656C, 0x62DC, 0x90E8])]"
| "translationsMap ministries =
     [(ascii ''General'', [0x4E00, 0x822C]),
      (ascii ''Short-term Mission'', [0x77ED, 0x5BA3]),
      (ascii ''English Class'', [0x82F1, 0x6587, 0x73ED]),
      (ascii ''Cha Kwo Ling Community'', [0x8336, 0x679C, 0x5DBA, 0x793E, 0x5340]),
      (ascii ''Mommy'' @ [0x27] @ ascii ''s Group'', [0x5ABD, 0x54AA, 0x5C0F, 0x7D44]),
      (ascii ''Homework Class'', [0x529F, 0x8AB2, 0x73ED]),
      (ascii ''Shared Space'', [0x5171, 0x4EAB, 0x7A7A, 0x9593])]"
| "translationsMap docTypes =
     [(ascii ''Meeting Minutes'', [0x6703, 0x8B70, 0x8A18, 0x9304]),
      (ascii ''Annual Plan'', [0x5E74, 0x5EA6, 0x8A08, 0x5283]),
      (ascii ''Project Plan'', [0x9805, 0x76EE, 0x8A08, 0x5283]),
      (ascii ''Budget Report'', [0x9810, 0x7B97, 0x5831, 0x544A]),
      (ascii ''Event Proposal'', [0x6D3B, 0x52D5, 0x63D0, 0x6848])]"
| "translationsMap statuses =
     [(ascii ''Draft'', [0x8349, 0x7A3F]),
      (ascii ''Final'', [0x6700, 0x7D42, 0x7248]),
      (ascii ''For Review'', [0x5BE9, 0x6838, 0x4E2D])]"

definition titleTranslations :: "(jsstring \<times> jsstring) list" where
  "titleTranslations =
     [(ascii ''Executive Committee Meeting Minutes'',
         [0x4E8B, 0x59D4, 0x6703, 0x8B70, 0x4E8B, 0x8A18, 0x9304]),
      (ascii ''Pastoral Dept. (Children) 2024 Annual Plan'',
         [0x7267, 0x990A, 0x90E8, 0x5152, 0x7AE5, 0x7267, 0x5340, 0x32, 0x30, 0x32, 0x34,
          0x5E74, 0x5EA6, 0x8A08, 0x5283]),
      (ascii ''Monthly Financial Report'', [0x6708, 0x6703, 0x8CA1, 0x52D9, 0x5831, 0x8868]),
      (ascii ''Short-term Mission Proposal'',
         [0x8336, 0x679C, 0x5DBA, 0x5340, 0x6D3B, 0x52D5, 0x9810, 0x7B97])]"

section \<open>Data model (src/index.tsx, lines 101-122)\<close>

text \<open>
  The attached \<open>File\<close> is an opaque handle. \<open>uploadDate\<close> is the value of \<open>getTime()\<close>,
  the milliseconds of a valid date. The fields \<open>id\<close> and \<open>file\<close> are named \<open>doc_id\<close> and
  \<open>fileHandle\<close>, and the fields of \<open>Filters\<close> carry the suffix \<open>F\<close> where a field of
  \<open>Document\<close> has the same name.
\<close>

type_synonym File = nat

record Document =
  doc_id :: jsstring
  title :: jsstring
  fileHandle :: File
  department :: jsstring
  ministry :: jsstring
  docType :: jsstring
  year :: int
  status :: jsstring
  uploadDate :: int

record Filters =
  searchTerm :: jsstring
  departmentF :: jsstring
  ministryF :: jsstring
  docTypeF :: jsstring
  yearF :: jsstring
  statusF :: jsstring

datatype Language = En | Zh

text \<open>The wildcard of every facet is the string \<open>'All'\<close>.\<close>

definition All_str :: jsstring where
  "All_str = ascii ''All''"

section \<open>Rendering in the active language (lines 140-156)\<close>

text \<open>
  Both functions return what the source returns: the value found in the dictionary
  when the language is \<open>'zh'\<close> and that value is truthy, a string otherwise. The
  parameter \<open>title\<close> of \<open>getTranslatedDocTitle\<close> is named \<open>t\<close>.
\<close>

definition getTranslatedValue :: "Language \<Rightarrow> Category \<Rightarrow> jsstring \<Rightarrow> jsvalue" where
  "getTranslatedValue language category value =
     (if language = Zh \<and> truthy (get_property (translationsMap category) value)
      then get_property (translationsMap category) value
      else Str value)"

definition getTranslatedDocTitle :: "Language \<Rightarrow> jsstring \<Rightarrow> jsvalue" where
  "getTranslatedDocTitle language t =
     (if language = Zh \<and> truthy (get_property titleTranslations t)
      then get_property titleTranslations t
      else (case find (\<lambda>(_, val). val = t) titleTranslations of
              Some reverseTitleMap \<Rightarrow> if language = En then Str (fst reverseTitleMap) else Str t
            | None \<Rightarrow> Str t))"

section \<open>The filter and rank pipeline (lines 168-209)\<close>

text \<open>
  The source computes \<open>filteredDocuments\<close> in one function; the predicate of its
  \<open>filter\<close> (lines 171-177) and the callback of its \<open>map\<close> (lines 187-205) are named
  \<open>facet_filter\<close> and \<open>score_document\<close> here.
\<close>

definition facet_filter :: "Document list \<Rightarrow> Filters \<Rightarrow> Document list" where
  "facet_filter documents filters =
     filter (\<lambda>doc.
        (departmentF filters = All_str \<or> department doc = departmentF filters) \<and>
        (ministryF filters = All_str \<or> ministry doc = ministryF filters) \<and>
        (docTypeF filters = All_str \<or> docType doc = docTypeF filters) \<and>
        (yearF filters = All_str \<or> strict_equals (Num (year doc)) (parseInt (yearF filters))) \<and>
        (statusF filters = All_str \<or> status doc = statusF filters)) documents"

text \<open>The callback of \<open>map\<close> returns \<open>{ ...doc, relevanceScore }\<close>.\<close>

record ScoredDocument = Document +
  relevanceScore :: int

definition with_score :: "Document \<Rightarrow> int \<Rightarrow> ScoredDocument" where
  "with_score doc n = Document.extend doc (ScoredDocument.fields n)"

definition score_document :: "Language \<Rightarrow> jsstring \<Rightarrow> Document \<Rightarrow> error + ScoredDocument" where
  "score_document language lowerCaseSearchTerm doc =
     (case call_toLowerCase (getTranslatedDocTitle language (title doc)) of
        Inl e \<Rightarrow> Inl e
      | Inr title' \<Rightarrow>
     (case call_toLowerCase (getTranslatedValue language docTypes (docType doc)) of
        Inl e \<Rightarrow> Inl e
      | Inr type' \<Rightarrow>
     (case call_toLowerCase (getTranslatedValue language departments (department doc)) of
        Inl e \<Rightarrow> Inl e
      | Inr dept' \<Rightarrow>
          (let s0 = 0;
               s1 = (if includes_str title' lowerCaseSearchTerm then s0 + 3 else s0);
               s2 = (if includes_str type' lowerCaseSearchTerm then s1 + 2 else s1);
               s3 = (if includes_str dept' lowerCaseSearchTerm then s2 + 1 else s2)
           in Inr (with_score doc s3)))))"

text \<open>
  The result is either the filtered documents by date, or the scored documents by
  relevance (in TypeScript, the union of the two array types).
\<close>

datatype Result = ByDate "Document list" | ByRelevance "ScoredDocument list"

definition filteredDocuments :: "Language \<Rightarrow> Document list \<Rightarrow> Filters \<Rightarrow> error + Result" where
  "filteredDocuments language documents filters =
     (let filtered = facet_filter documents filters in
      if \<not> truthy (Str (trim (searchTerm filters)))
      then Inr (ByDate (array_sort (\<lambda>a b. uploadDate b - uploadDate a) filtered))
      else
        (let lowerCaseSearchTerm = toLowerCase (searchTerm filters) in
         case map_throwing (score_document language lowerCaseSearchTerm) filtered of
           Inl e \<Rightarrow> Inl e
         | Inr scored \<Rightarrow>
             Inr (ByRelevance
               (array_sort (\<lambda>a b. relevanceScore b - relevanceScore a)
                  (filter (\<lambda>doc. relevanceScore doc > 0) scored)))))"

section \<open>Initial state of the application (lines 127-134 and 213-219)\<close>

definition dummyFile :: File where
  "dummyFile = 0"

definition doc_1 :: Document where
  "doc_1 = \<lparr>doc_id = ascii ''1'', title = ascii ''Executive Committee Meeting Minutes'',
     fileHandle = dummyFile, department = ascii ''Executive Committee'',
     ministry = ascii ''General'', docType = ascii ''Meeting Minutes'', year = 2023,
     status = ascii ''Final'', uploadDate = 1678838400000\<rparr>"

definition doc_2 :: Document where
  "doc_2 = \<lparr>doc_id = ascii ''2'', title = ascii ''Pastoral Dept. (Children) 2024 Annual Plan'',
     fileHandle = dummyFile, department = ascii ''Pastoral Department (Children Zone)'',
     ministry = ascii ''General'', docType = ascii ''Annual Plan'', year = 2024,
     status = ascii ''Draft'', uploadDate = 1705708800000\<rparr>"

definition doc_3 :: Document where
  "doc_3 = \<lparr>doc_id = ascii ''3'', title = ascii ''Monthly Financial Report'',
     fileHandle = dummyFile, department = ascii ''Admin & Resources Department'',
     ministry = ascii ''General'', docType = ascii ''Budget Report'', year = 2023,
     status = ascii ''For Review'', uploadDate = 1699142400000\<rparr>"

definition doc_4 :: Document where
  "doc_4 = \<lparr>doc_id = ascii ''4'', title = ascii ''Short-term Mission Proposal'',
     fileHandle = dummyFile, department = ascii ''Missions Department'',
     ministry = ascii ''Short-term Mission'', docType = ascii ''Event Proposal'', year = 2024,
     status = ascii ''Draft'', uploadDate = 1715299200000\<rparr>"

definition initialDocs :: "Document list" where
  "initialDocs = [doc_1, doc_2, doc_3, doc_4]"

definition initialFilters :: Filters where
  "initialFilters = \<lparr>searchTerm = [], departmentF = All_str, ministryF = All_str,
     docTypeF = All_str, yearF = All_str, statusF = All_str\<rparr>"

section \<open>The specification's reading of the facet filter\<close>

text \<open>
  The five facets, the constraint that the criteria put on each, and what it means for
  a document's raw attribute to equal a constraint value: equality of strings, and for
  the year equality with the constraint parsed as an integer.
\<close>

datatype Facet = DepartmentFacet | MinistryFacet | DocTypeFacet | YearFacet | StatusFacet

fun constraint :: "Filters \<Rightarrow> Facet \<Rightarrow> jsstring" where
  "constraint c DepartmentFacet = departmentF c"
| "constraint c MinistryFacet = ministryF c"
| "constraint c DocTypeFacet = docTypeF c"
| "constraint c YearFacet = yearF c"
| "constraint c StatusFacet = statusF c"

fun raw_attribute_equals :: "Document \<Rightarrow> Facet \<Rightarrow> jsstring \<Rightarrow> bool" where
  "raw_attribute_equals d DepartmentFacet v = (department d = v)"
| "raw_attribute_equals d MinistryFacet v = (ministry d = v)"
| "raw_attribute_equals d DocTypeFacet v = (docType d = v)"
| "raw_attribute_equals d YearFacet v = (parseInt v = Num (year d))"
| "raw_attribute_equals d StatusFacet v = (status d = v)"

definition passes_facets :: "Filters \<Rightarrow> Document \<Rightarrow> bool" where
  "passes_facets c d =
     (\<forall>f. constraint c f \<noteq> All_str \<longrightarrow> raw_attribute_equals d f (constraint c f))"

text \<open>\<open>String(n)\<close> for a natural number: its decimal digits.\<close>

fun decimal :: "nat \<Rightarrow> jsstring" where
  "decimal n =
     (if n < 10 then [0x30 + of_nat n] else decimal (n div 10) @ [0x30 + of_nat (n mod 10)])"

declare decimal.simps [simp del]

definition is_decimal_digit :: "16 word \<Rightarrow> bool" where
  "is_decimal_digit u = (0x30 \<le> u \<and> u \<le> 0x39)"

section \<open>Sorting with a descending key\<close>

text \<open>
  Both comparators of the pipeline have the form \<open>key b - key a\<close>. With such a
  comparator \<open>array_sort\<close> is the library's stable insertion sort on the negated key.
\<close>

lemma insert_sorted_descending:
  "insert_sorted (\<lambda>a b. key b - key a) x xs = insort_key (\<lambda>d. - key d) x xs"
  for key :: "'a \<Rightarrow> int"
  by (induction xs) auto

lemma array_sort_descending:
  "array_sort (\<lambda>a b. key b - key a) xs = sort_key (\<lambda>d. - key d) xs"
  for key :: "'a \<Rightarrow> int"
proof -
  have "insert_sorted (\<lambda>a b. key b - key a) = insort_key (\<lambda>d. - key d)"
    by (intro ext) (rule insert_sorted_descending)
  then show ?thesis by (simp add: array_sort_def sort_key_def)
qed

lemma mset_array_sort_descending:
  "mset (array_sort (\<lambda>a b. key b - key a) xs) = mset xs"
  for key :: "'a \<Rightarrow> int"
  by (simp add: array_sort_descending)

lemma sorted_array_sort_descending:
  "sorted_wrt (\<lambda>a b. key a \<ge> key b) (array_sort (\<lambda>a b. key b - key a) xs)"
  for key :: "'a \<Rightarrow> int"
proof -
  have "sorted (map (\<lambda>d. - key d) (sort_key (\<lambda>d. - key d) xs))"
    by (rule sorted_sort_key)
  then show ?thesis
    by (simp add: array_sort_descending sorted_map)
qed

lemma stable_array_sort_descending:
  "filter (\<lambda>d. key d = k) (array_sort (\<lambda>a b. key b - key a) xs) = filter (\<lambda>d. key d = k) xs"
  for key :: "'a \<Rightarrow> int"
proof -
  have "filter (\<lambda>d. - key d = - k) (sort_key (\<lambda>d. - key d) xs) = filter (\<lambda>d. - key d = - k) xs"
    by (rule sort_key_stable)
  then show ?thesis by (simp add: array_sort_descending)
qed

section \<open>Reading a decimal numeral with parseInt\<close>

lemma decimal_digit_not_whitespace: "is_decimal_digit u \<Longrightarrow> \<not> is_whitespace u"
  by (auto simp: is_decimal_digit_def is_whitespace_def word_le_nat_alt)

lemma decimal_digit_is_digit_of_10: "is_decimal_digit u \<Longrightarrow> is_digit_of 10 u"
  by (auto simp: is_decimal_digit_def is_digit_of_def digit_value_def word_le_nat_alt)

lemma decimal_digit_not_sign:
  "is_decimal_digit u \<Longrightarrow> u \<noteq> 0x2D \<and> u \<noteq> 0x2B \<and> u \<noteq> 0x78 \<and> u \<noteq> 0x58"
  by (auto simp: is_decimal_digit_def)

lemma parseInt_decimal_prefix:
  assumes ne: "ds \<noteq> []"
    and dig: "\<forall>u\<in>set ds. is_decimal_digit u"
    and rest: "rest = [] \<or> \<not> is_digit_of 10 (hd rest)"
    and nohex: "\<not> (ds = [0x30] \<and> rest \<noteq> [] \<and> (hd rest = 0x78 \<or> hd rest = 0x58))"
  shows "parseInt (ds @ rest) = Num (int (digits_value 10 ds))"
proof -
  from ne obtain u ds' where ds: "ds = u # ds'" by (cases ds) auto
  from dig ds have u: "is_decimal_digit u" by simp
  have ws: "dropWhile is_whitespace (ds @ rest) = ds @ rest"
    using ds decimal_digit_not_whitespace[OF u] by simp
  have sg: "strip_sign (ds @ rest) = (1, ds @ rest)"
    using ds decimal_digit_not_sign[OF u] by simp
  have rx: "strip_radix_prefix (ds @ rest) = (10, ds @ rest)"
  proof (cases "ds' @ rest")
    case Nil
    then show ?thesis using ds by simp
  next
    case (Cons b bs)
    have "\<not> (u = 0x30 \<and> (b = 0x78 \<or> b = 0x58))"
    proof (cases ds')
      case Nil
      with Cons have "rest = b # bs" by simp
      with nohex ds Nil show ?thesis by auto
    next
      case (Cons b' bs')
      with \<open>ds' @ rest = b # bs\<close> have "b = b'" by simp
      with Cons dig ds have "is_decimal_digit b" by simp
      then show ?thesis using decimal_digit_not_sign by blast
    qed
    then show ?thesis using ds Cons by auto
  qed
  have tw: "takeWhile (is_digit_of 10) (ds @ rest) = ds"
  proof -
    have "\<forall>u\<in>set ds. is_digit_of 10 u" using dig decimal_digit_is_digit_of_10 by blast
    moreover have "takeWhile (is_digit_of 10) rest = []"
      using rest by (cases rest) auto
    ultimately show ?thesis by (simp add: takeWhile_append2)
  qed
  show ?thesis using ne by (simp add: parseInt_def ws sg rx tw)
qed

lemma digits_value_snoc:
  "digits_value R (Z @ [u])
     = digits_value R Z * R + (case digit_value u of Some d \<Rightarrow> d | None \<Rightarrow> 0)"
  by (simp add: digits_value_def)

lemma digit_char:
  "k < 10 \<Longrightarrow> is_decimal_digit (0x30 + of_nat k) \<and> digit_value (0x30 + of_nat k) = Some k"
proof -
  assume "k < 10"
  then have "k \<in> {0, 1, 2, 3, 4, 5, 6, 7, 8, 9}" by auto
  then show ?thesis
    by (auto simp: is_decimal_digit_def digit_value_def)
qed

lemma decimal_all_digits: "\<forall>u\<in>set (decimal n). is_decimal_digit u"
proof (induction n rule: decimal.induct)
  case (1 n)
  show ?case
  proof (cases "n < 10")
    case True
    then show ?thesis using digit_char[of n] by (simp add: decimal.simps[of n])
  next
    case False
    then show ?thesis using "1.IH"[OF False] digit_char[of "n mod 10"]
      by (simp add: decimal.simps[of n])
  qed
qed

lemma decimal_digits: "u \<in> set (decimal n) \<Longrightarrow> is_decimal_digit u"
  using decimal_all_digits by blast

lemma decimal_nonempty: "decimal n \<noteq> []"
  by (subst decimal.simps) simp

lemma digits_value_decimal: "digits_value 10 (decimal n) = n"
proof (induction n rule: decimal.induct)
  case (1 n)
  show ?case
  proof (cases "n < 10")
    case True
    then show ?thesis using digit_char[of n]
      by (simp add: decimal.simps[of n] digits_value_def)
  next
    case False
    then show ?thesis using "1.IH"[OF False] digit_char[of "n mod 10"]
      by (simp add: decimal.simps[of n] digits_value_snoc)
  qed
qed

lemma parseInt_decimal: "parseInt (decimal n) = Num (int n)"
  using parseInt_decimal_prefix[of "decimal n" "[]"] decimal_digits decimal_nonempty
    digits_value_decimal
  by simp

section \<open>The facet filter\<close>

lemma strict_equals_Num: "strict_equals (Num a) n = (n = Num a)"
  by (cases n) auto

lemma passes_facets_unfold:
  "passes_facets c d =
     ((departmentF c = All_str \<or> department d = departmentF c) \<and>
      (ministryF c = All_str \<or> ministry d = ministryF c) \<and>
      (docTypeF c = All_str \<or> docType d = docTypeF c) \<and>
      (yearF c = All_str \<or> parseInt (yearF c) = Num (year d)) \<and>
      (statusF c = All_str \<or> status d = statusF c))"
  (is "?L = ?R")
proof
  assume L: ?L
  show ?R
    using L[unfolded passes_facets_def, rule_format, of DepartmentFacet]
      L[unfolded passes_facets_def, rule_format, of MinistryFacet]
      L[unfolded passes_facets_def, rule_format, of DocTypeFacet]
      L[unfolded passes_facets_def, rule_format, of YearFacet]
      L[unfolded passes_facets_def, rule_format, of StatusFacet]
    by auto
next
  assume R: ?R
  show ?L unfolding passes_facets_def
  proof (intro allI impI)
    fix f assume "constraint c f \<noteq> All_str"
    with R show "raw_attribute_equals d f (constraint c f)" by (cases f) auto
  qed
qed

lemma facet_filter_passes: "facet_filter documents c = filter (passes_facets c) documents"
  unfolding facet_filter_def
  by (rule filter_cong[OF refl]) (simp add: passes_facets_unfold strict_equals_Num)

lemma year_NaN_no_match:
  "yearF c \<noteq> All_str \<Longrightarrow> parseInt (yearF c) = NaN \<Longrightarrow> facet_filter docs c = []"
  by (simp add: facet_filter_def)

lemma year_Num_match:
  "yearF c \<noteq> All_str \<Longrightarrow> parseInt (yearF c) = Num n \<Longrightarrow>
     facet_filter docs c = filter (\<lambda>d. year d = n) (facet_filter docs (c\<lparr>yearF := All_str\<rparr>))"
  unfolding facet_filter_def filter_filter
  by (rule filter_cong[OF refl]) auto

text \<open>
  Claim C3. A document is in the output of the facet filter exactly when it is in the
  input and, for each of the five facets whose constraint is not the wildcard, its raw
  attribute equals the constraint (strings compared code unit by code unit, the year
  with the constraint parsed as an integer); the output is the input with the other
  documents removed, so the relative order is the one of the input. For a year
  constraint that is the decimal numeral of \<open>n\<close>, the year test is \<open>year = n\<close>.
\<close>

theorem facet_filter_and_semantics:
  "(d \<in> set (facet_filter documents c) \<longleftrightarrow> d \<in> set documents \<and> passes_facets c d)
   \<and> facet_filter documents c = filter (passes_facets c) documents
   \<and> subseq (facet_filter documents c) documents
   \<and> (raw_attribute_equals d YearFacet (decimal n) \<longleftrightarrow> year d = int n)"
  by (auto simp add: facet_filter_passes parseInt_decimal)

theorem facet_filter_and_semantics_witness:
  "passes_facets (initialFilters\<lparr>departmentF := ascii ''Missions Department''\<rparr>) doc_4
   \<and> facet_filter initialDocs (initialFilters\<lparr>departmentF := ascii ''Missions Department''\<rparr>)
       = [doc_4]
   \<and> facet_filter initialDocs (initialFilters\<lparr>departmentF := ascii ''missions department''\<rparr>)
       = []
   \<and> facet_filter initialDocs (initialFilters\<lparr>yearF := decimal 2023\<rparr>) = [doc_1, doc_3]"
proof -
  have a: "facet_filter initialDocs (initialFilters\<lparr>departmentF := ascii ''Missions Department''\<rparr>)
      = [doc_4]"
    by code_simp
  have b: "facet_filter initialDocs (initialFilters\<lparr>departmentF := ascii ''missions department''\<rparr>)
      = []"
    by code_simp
  have c: "facet_filter initialDocs (initialFilters\<lparr>yearF := decimal 2023\<rparr>) = [doc_1, doc_3]"
    by code_simp
  from facet_filter_and_semantics[of doc_4 initialDocs
      "initialFilters\<lparr>departmentF := ascii ''Missions Department''\<rparr>"] a b c
  show ?thesis by simp
qed

text \<open>
  Claim C9. Filtering with all-wildcard criteria returns the input collection itself:
  the same documents, as often, in the same order, whatever the search text is.
\<close>

theorem facet_filter_wildcard_identity:
  "facet_filter documents
     \<lparr>searchTerm = q, departmentF = All_str, ministryF = All_str, docTypeF = All_str,
      yearF = All_str, statusF = All_str\<rparr> = documents
   \<and> mset (facet_filter documents
     \<lparr>searchTerm = q, departmentF = All_str, ministryF = All_str, docTypeF = All_str,
      yearF = All_str, statusF = All_str\<rparr>) = mset documents"
  by (simp add: facet_filter_def)

section \<open>Rendering titles and labels\<close>

lemma find_by_value:
  "distinct (map snd xs) \<Longrightarrow> (k, v) \<in> set xs \<Longrightarrow> find (\<lambda>(_, val). val = v) xs = Some (k, v)"
proof (induction xs)
  case Nil
  then show ?case by simp
next
  case (Cons x xs)
  then show ?case by (cases x) (auto simp: image_iff)
qed

lemma find_by_value_None:
  "t \<notin> snd ` set xs \<Longrightarrow> find (\<lambda>(_, val). val = t) xs = None"
  by (induction xs) (auto simp: image_iff)

lemma titleTranslations_distinct_keys: "distinct (map fst titleTranslations)"
  by (simp add: titleTranslations_def ascii_def)

lemma titleTranslations_distinct_values: "distinct (map snd titleTranslations)"
  by (simp add: titleTranslations_def)

lemma titleTranslations_entry:
  "(k, v) \<in> set titleTranslations \<Longrightarrow> v \<noteq> [] \<and> k \<noteq> v"
  by (auto simp add: titleTranslations_def ascii_def)

lemma get_property_own:
  "distinct (map fst obj) \<Longrightarrow> (k, v) \<in> set obj \<Longrightarrow> get_property obj k = Str v"
  by (simp add: get_property_def)

lemma get_property_absent:
  "k \<notin> fst ` set obj \<Longrightarrow> k \<notin> set object_prototype_names \<Longrightarrow> get_property obj k = Undefined"
proof -
  assume "k \<notin> fst ` set obj" and "k \<notin> set object_prototype_names"
  moreover from \<open>k \<notin> fst ` set obj\<close> have "map_of obj k = None"
    by (simp add: map_of_eq_None_iff)
  ultimately show ?thesis by (simp add: get_property_def)
qed

lemma getTranslatedValue_fallback:
  "v \<notin> fst ` set (translationsMap category) \<Longrightarrow> v \<notin> set object_prototype_names \<Longrightarrow>
     getTranslatedValue l category v = Str v"
  by (simp add: getTranslatedValue_def get_property_absent)

text \<open>
  The stored title \<open>'Monthly Financial Report'\<close> is an English key of the title
  dictionary, and in the English locale it is returned unchanged: a title can be
  returned unchanged although it appears on one side of the dictionary.
\<close>

theorem title_unchanged_on_key_side:
  "getTranslatedDocTitle En (ascii ''Monthly Financial Report'')
     = Str (ascii ''Monthly Financial Report'')
   \<and> ascii ''Monthly Financial Report'' \<in> fst ` set titleTranslations"
  by code_simp

text \<open>
  Claim C10, amended. Title rendering is bidirectional. In the English locale a stored
  title that equals one of the Chinese values of the title dictionary is rendered as
  the English key of that entry, which differs from the stored title; every other
  title, an English key of the dictionary included, is returned unchanged. In the
  Chinese locale a stored title that is an English key is rendered as its Chinese
  value, and a title that is neither a key nor the name of a member of
  \<open>Object.prototype\<close> is returned unchanged, also when it is one of the Chinese values.
\<close>

theorem title_rendering:
  "((k, v) \<in> set titleTranslations \<longrightarrow> getTranslatedDocTitle En v = Str k \<and> k \<noteq> v)
   \<and> (t \<notin> snd ` set titleTranslations \<longrightarrow> getTranslatedDocTitle En t = Str t)
   \<and> ((k, v) \<in> set titleTranslations \<longrightarrow> getTranslatedDocTitle Zh k = Str v)
   \<and> (t \<notin> fst ` set titleTranslations \<and> t \<notin> set object_prototype_names \<longrightarrow>
        getTranslatedDocTitle Zh t = Str t)"
proof (intro conjI impI)
  assume kv: "(k, v) \<in> set titleTranslations"
  then show "getTranslatedDocTitle En v = Str k"
    by (simp add: getTranslatedDocTitle_def find_by_value[OF titleTranslations_distinct_values])
  from kv show "k \<noteq> v" using titleTranslations_entry by blast
  from kv have "get_property titleTranslations k = Str v"
    by (rule get_property_own[OF titleTranslations_distinct_keys])
  moreover from kv have "v \<noteq> []" using titleTranslations_entry by blast
  ultimately show "getTranslatedDocTitle Zh k = Str v"
    by (simp add: getTranslatedDocTitle_def)
next
  assume "t \<notin> snd ` set titleTranslations"
  then show "getTranslatedDocTitle En t = Str t"
    by (simp add: getTranslatedDocTitle_def find_by_value_None)
next
  assume "t \<notin> fst ` set titleTranslations \<and> t \<notin> set object_prototype_names"
  then have "get_property titleTranslations t = Undefined"
    by (simp add: get_property_absent)
  then show "getTranslatedDocTitle Zh t = Str t"
    by (simp add: getTranslatedDocTitle_def split: option.split)
qed

theorem title_rendering_witness:
  "(ascii ''Monthly Financial Report'', [0x6708, 0x6703, 0x8CA1, 0x52D9, 0x5831, 0x8868])
      \<in> set titleTranslations
   \<and> getTranslatedDocTitle En [0x6708, 0x6703, 0x8CA1, 0x52D9, 0x5831, 0x8868]
       = Str (ascii ''Monthly Financial Report'')
   \<and> getTranslatedDocTitle Zh (ascii ''Monthly Financial Report'')
       = Str [0x6708, 0x6703, 0x8CA1, 0x52D9, 0x5831, 0x8868]
   \<and> ascii ''Budget 2025'' \<notin> snd ` set titleTranslations
   \<and> ascii ''Budget 2025'' \<notin> fst ` set titleTranslations
   \<and> ascii ''Budget 2025'' \<notin> set object_prototype_names
   \<and> getTranslatedDocTitle En (ascii ''Budget 2025'') = Str (ascii ''Budget 2025'')
   \<and> getTranslatedDocTitle Zh (ascii ''Budget 2025'') = Str (ascii ''Budget 2025'')"
proof -
  have a: "(ascii ''Monthly Financial Report'', [0x6708, 0x6703, 0x8CA1, 0x52D9, 0x5831, 0x8868])
      \<in> set titleTranslations"
    by (simp add: titleTranslations_def)
  have b: "ascii ''Budget 2025'' \<notin> snd ` set titleTranslations"
    by code_simp
  have c: "ascii ''Budget 2025'' \<notin> fst ` set titleTranslations"
    by code_simp
  have d: "ascii ''Budget 2025'' \<notin> set object_prototype_names"
    by code_simp
  from title_rendering[of "ascii ''Monthly Financial Report''"
      "[0x6708, 0x6703, 0x8CA1, 0x52D9, 0x5831, 0x8868]" "ascii ''Budget 2025''"] a b c d
  show ?thesis by simp
qed

text \<open>
  Claim C7, at an input where the code departs from it. The identity fallback fails
  for a raw value that names a member of \<open>Object.prototype\<close>. The stored title \<open>'constructor'\<close> has no entry in the title
  dictionary, on either side; in the Chinese locale the lookup finds the inherited
  member, which is truthy, so the rendered value is that member and not the stored
  title, and \<open>toLowerCase\<close> on it throws. The same holds for the labels.
\<close>

theorem identity_fallback_fails_on_inherited_name:
  "map_of titleTranslations (ascii ''constructor'') = None
   \<and> find (\<lambda>(_, val). val = ascii ''constructor'') titleTranslations = None
   \<and> getTranslatedDocTitle Zh (ascii ''constructor'') = Inherited
   \<and> call_toLowerCase (getTranslatedDocTitle Zh (ascii ''constructor'')) = Inl TypeError
   \<and> map_of (translationsMap departments) (ascii ''constructor'') = None
   \<and> getTranslatedValue Zh departments (ascii ''constructor'') = Inherited"
  by code_simp

section \<open>Scoring\<close>

lemma truncate_with_score: "Document.truncate (with_score d n) = d"
  by (simp add: with_score_def Document.truncate_def Document.extend_def)

lemma relevanceScore_with_score: "relevanceScore (with_score d n) = n"
  by (simp add: with_score_def Document.extend_def ScoredDocument.fields_def)

lemma getTranslatedValue_En: "getTranslatedValue En category v = Str v"
  by (simp add: getTranslatedValue_def)

lemma getTranslatedDocTitle_En_string: "\<exists>t'. getTranslatedDocTitle En t = Str t'"
  by (simp add: getTranslatedDocTitle_def split: option.split)

lemma score_document_rendered:
  assumes "getTranslatedDocTitle l (title d) = Str t"
    and "getTranslatedValue l docTypes (docType d) = Str y"
    and "getTranslatedValue l departments (department d) = Str p"
  shows "score_document l q d =
     Inr (with_score d (3 * of_bool (includes_str (toLowerCase t) q)
                      + 2 * of_bool (includes_str (toLowerCase y) q)
                      + 1 * of_bool (includes_str (toLowerCase p) q)))"
  using assms by (simp add: score_document_def)

lemma score_document_Inr:
  assumes "score_document l q d = Inr s"
  shows "\<exists>t y p. getTranslatedDocTitle l (title d) = Str t
       \<and> getTranslatedValue l docTypes (docType d) = Str y
       \<and> getTranslatedValue l departments (department d) = Str p
       \<and> s = with_score d (3 * of_bool (includes_str (toLowerCase t) q)
                      + 2 * of_bool (includes_str (toLowerCase y) q)
                      + 1 * of_bool (includes_str (toLowerCase p) q))"
proof -
  obtain t where t: "getTranslatedDocTitle l (title d) = Str t"
    using assms by (cases "getTranslatedDocTitle l (title d)") (auto simp: score_document_def)
  obtain y where y: "getTranslatedValue l docTypes (docType d) = Str y"
    using assms t by (cases "getTranslatedValue l docTypes (docType d)") (auto simp: score_document_def)
  obtain p where p: "getTranslatedValue l departments (department d) = Str p"
    using assms t y by (cases "getTranslatedValue l departments (department d)") (auto simp: score_document_def)
  from score_document_rendered[OF t y p, of q] assms t y p show ?thesis by simp
qed

lemma score_document_truncate: "score_document l q d = Inr s \<Longrightarrow> Document.truncate s = d"
  by (auto dest!: score_document_Inr simp: truncate_with_score)

lemma map_throwing_Inr:
  "map_throwing f xs = Inr ys \<Longrightarrow> list_all2 (\<lambda>x y. f x = Inr y) xs ys"
  by (induction xs arbitrary: ys) (auto split: sum.splits)

lemma map_throwing_total:
  "(\<And>x. x \<in> set xs \<Longrightarrow> \<exists>y. f x = Inr y) \<Longrightarrow> \<exists>ys. map_throwing f xs = Inr ys"
proof (induction xs)
  case Nil
  then show ?case by simp
next
  case (Cons x xs)
  then obtain y where "f x = Inr y" by force
  moreover obtain ys where "map_throwing f xs = Inr ys" using Cons by force
  ultimately show ?case by simp
qed

lemma map_throwing_score_truncate:
  assumes "map_throwing (score_document l q) xs = Inr scored"
  shows "map Document.truncate scored = xs"
proof -
  have "list_all2 (\<lambda>x y. score_document l q x = Inr y) xs scored"
    using assms by (rule map_throwing_Inr)
  then show ?thesis
    by (induction rule: list_all2_induct) (auto simp: score_document_truncate)
qed

lemma score_document_En_total: "\<exists>s. score_document En q d = Inr s"
proof -
  obtain t where "getTranslatedDocTitle En (title d) = Str t"
    using getTranslatedDocTitle_En_string by blast
  then show ?thesis
    using score_document_rendered[of En d t "docType d" "department d" q]
    by (simp add: getTranslatedValue_En)
qed


text \<open>
  The score depends on the document through its title, document type and department
  only; ministry, year, status, identifier, attachment and upload date play no part.
\<close>

lemma score_ignores_other_fields:
  assumes "title d = title d'" and "docType d = docType d'" and "department d = department d'"
  shows "map_sum id relevanceScore (score_document l q d)
       = map_sum id relevanceScore (score_document l q d')"
  using assms
  by (simp add: score_document_def with_score_def Document.extend_def ScoredDocument.fields_def
      split: sum.split)

text \<open>
  What a ranking by relevance contains: the scored documents of positive score, each
  as often as in the facet-filtered input, by descending score.
\<close>

lemma relevance_output:
  assumes "filteredDocuments l docs c = Inr (ByRelevance out)"
  shows "\<exists>scored.
      map_throwing (score_document l (toLowerCase (searchTerm c))) (facet_filter docs c)
        = Inr scored
    \<and> mset out = mset (filter (\<lambda>s. 0 < relevanceScore s) scored)
    \<and> sorted_wrt (\<lambda>a b. relevanceScore a \<ge> relevanceScore b) out
    \<and> (\<forall>s\<in>set out. 0 < relevanceScore s)"
proof -
  from assms have ne: "trim (searchTerm c) \<noteq> []"
    by (auto simp add: filteredDocuments_def split: if_splits)
  from assms ne obtain scored where
    scored: "map_throwing (score_document l (toLowerCase (searchTerm c))) (facet_filter docs c)
       = Inr scored"
    and o: "out = array_sort (\<lambda>a b. relevanceScore b - relevanceScore a)
                    (filter (\<lambda>doc. relevanceScore doc > 0) scored)"
    by (auto simp add: filteredDocuments_def split: sum.splits)
  have m: "mset out = mset (filter (\<lambda>s. 0 < relevanceScore s) scored)"
    unfolding o by (rule mset_array_sort_descending)
  have "set out = set (filter (\<lambda>s. 0 < relevanceScore s) scored)"
    using m by (rule mset_eq_setD)
  then have "\<forall>s\<in>set out. 0 < relevanceScore s" by simp
  moreover have "sorted_wrt (\<lambda>a b. relevanceScore a \<ge> relevanceScore b) out"
    unfolding o by (rule sorted_array_sort_descending)
  ultimately show ?thesis using scored m by blast
qed

section \<open>Mode selection and ordering\<close>



text \<open>
  Claim C6. Both sorts are stable. By date: the documents of any one upload date keep
  the order of the facet-filtered input. By relevance: the scored documents are the
  facet-filtered input in its order, and those of any one score are in the output in
  that same order, so no second key orders them.
\<close>

theorem sorts_are_stable:
  "(trim (searchTerm c) = [] \<longrightarrow>
      (\<exists>out. filteredDocuments l docs c = Inr (ByDate out)
         \<and> (\<forall>t. filter (\<lambda>d. uploadDate d = t) out
                = filter (\<lambda>d. uploadDate d = t) (facet_filter docs c))))
   \<and> (\<forall>out. filteredDocuments l docs c = Inr (ByRelevance out) \<longrightarrow>
      (\<exists>scored.
          map_throwing (score_document l (toLowerCase (searchTerm c))) (facet_filter docs c)
            = Inr scored
        \<and> map Document.truncate scored = facet_filter docs c
        \<and> (\<forall>k. filter (\<lambda>s. relevanceScore s = k) out
                = filter (\<lambda>s. relevanceScore s = k)
                    (filter (\<lambda>s. relevanceScore s > 0) scored))))"
proof (intro conjI impI allI)
  assume "trim (searchTerm c) = []"
  then have "filteredDocuments l docs c =
      Inr (ByDate (array_sort (\<lambda>a b. uploadDate b - uploadDate a) (facet_filter docs c)))"
    by (simp add: filteredDocuments_def)
  then show "\<exists>out. filteredDocuments l docs c = Inr (ByDate out)
         \<and> (\<forall>t. filter (\<lambda>d. uploadDate d = t) out
                = filter (\<lambda>d. uploadDate d = t) (facet_filter docs c))"
    by (simp add: stable_array_sort_descending)
next
  fix out
  assume out: "filteredDocuments l docs c = Inr (ByRelevance out)"
  let ?m = "map_throwing (score_document l (toLowerCase (searchTerm c))) (facet_filter docs c)"
  from out have ne: "trim (searchTerm c) \<noteq> []"
    by (auto simp add: filteredDocuments_def split: if_splits)
  from out ne obtain scored where scored: "?m = Inr scored"
    and o: "out = array_sort (\<lambda>a b. relevanceScore b - relevanceScore a)
                    (filter (\<lambda>doc. relevanceScore doc > 0) scored)"
    by (auto simp add: filteredDocuments_def split: sum.splits)
  have "map Document.truncate scored = facet_filter docs c"
    using scored by (rule map_throwing_score_truncate)
  moreover have "\<forall>k. filter (\<lambda>s. relevanceScore s = k) out
                = filter (\<lambda>s. relevanceScore s = k)
                    (filter (\<lambda>s. relevanceScore s > 0) scored)"
    unfolding o by (simp only: stable_array_sort_descending) simp
  ultimately show "\<exists>scored. ?m = Inr scored
        \<and> map Document.truncate scored = facet_filter docs c
        \<and> (\<forall>k. filter (\<lambda>s. relevanceScore s = k) out
                = filter (\<lambda>s. relevanceScore s = k)
                    (filter (\<lambda>s. relevanceScore s > 0) scored))"
    using scored by blast
qed

text \<open>
  Three of the four initial documents score 6 for the query \<open>p\<close>. They come out in
  the order of the input, which is not the order of their upload dates. Two documents
  of one upload date come out by date in the order of the input.
\<close>

theorem sorts_are_stable_witness:
  "filteredDocuments En initialDocs (initialFilters\<lparr>searchTerm := ascii ''p''\<rparr>)
     = Inr (ByRelevance [with_score doc_2 6, with_score doc_3 6, with_score doc_4 6])
   \<and> (\<exists>scored.
          map_throwing (score_document En (toLowerCase (ascii ''p''))) initialDocs = Inr scored
        \<and> map Document.truncate scored = initialDocs
        \<and> [with_score doc_2 6, with_score doc_3 6, with_score doc_4 6]
            = filter (\<lambda>s. relevanceScore s = 6) (filter (\<lambda>s. relevanceScore s > 0) scored))
   \<and> trim (searchTerm initialFilters) = []
   \<and> filteredDocuments En [doc_1, doc_3, doc_1\<lparr>doc_id := ascii ''5''\<rparr>] initialFilters
       = Inr (ByDate [doc_3, doc_1, doc_1\<lparr>doc_id := ascii ''5''\<rparr>])
   \<and> (\<exists>out. filteredDocuments En [doc_1, doc_3, doc_1\<lparr>doc_id := ascii ''5''\<rparr>] initialFilters
                = Inr (ByDate out)
         \<and> filter (\<lambda>d. uploadDate d = uploadDate doc_1) out
             = [doc_1, doc_1\<lparr>doc_id := ascii ''5''\<rparr>])"
proof -
  let ?c = "initialFilters\<lparr>searchTerm := ascii ''p''\<rparr>"
  let ?out = "[with_score doc_2 6, with_score doc_3 6, with_score doc_4 6]"
  let ?docs = "[doc_1, doc_3, doc_1\<lparr>doc_id := ascii ''5''\<rparr>]"
  have a: "filteredDocuments En initialDocs ?c = Inr (ByRelevance ?out)"
    by code_simp
  have f: "facet_filter initialDocs ?c = initialDocs"
    by code_simp
  have k: "filter (\<lambda>s. relevanceScore s = 6) ?out = ?out"
    by (simp add: relevanceScore_with_score)
  have t: "trim (searchTerm initialFilters) = []"
    by code_simp
  have d: "filteredDocuments En ?docs initialFilters = Inr (ByDate [doc_3, doc_1, doc_1\<lparr>doc_id := ascii ''5''\<rparr>])"
    by code_simp
  have g: "filter (\<lambda>d. uploadDate d = uploadDate doc_1) (facet_filter ?docs initialFilters)
      = [doc_1, doc_1\<lparr>doc_id := ascii ''5''\<rparr>]"
    by code_simp
  from sorts_are_stable[of ?c En initialDocs] a
  obtain scored where
    "map_throwing (score_document En (toLowerCase (searchTerm ?c))) (facet_filter initialDocs ?c)
       = Inr scored"
    "map Document.truncate scored = facet_filter initialDocs ?c"
    "filter (\<lambda>s. relevanceScore s = 6) ?out
       = filter (\<lambda>s. relevanceScore s = 6) (filter (\<lambda>s. relevanceScore s > 0) scored)"
    by blast
  moreover from sorts_are_stable[of initialFilters En ?docs] t
  obtain out where "filteredDocuments En ?docs initialFilters = Inr (ByDate out)"
    "filter (\<lambda>d. uploadDate d = uploadDate doc_1) out
       = filter (\<lambda>d. uploadDate d = uploadDate doc_1) (facet_filter ?docs initialFilters)"
    by blast
  ultimately show ?thesis using a f k t d g by simp
qed

section \<open>A year constraint that is not a numeral\<close>

lemma is_digit_of_10: "is_digit_of 10 u = is_decimal_digit u"
  by (auto simp: is_digit_of_def is_decimal_digit_def digit_value_def word_le_nat_alt)

lemma facet_filter_year_split:
  "yearF c \<noteq> All_str \<Longrightarrow>
     facet_filter docs c
       = facet_filter (filter (\<lambda>d. strict_equals (Num (year d)) (parseInt (yearF c))) docs)
           (c\<lparr>yearF := All_str\<rparr>)"
  unfolding facet_filter_def filter_filter
  by (rule filter_cong[OF refl]) auto

lemma filteredDocuments_cong:
  "facet_filter docs c = facet_filter docs' c' \<Longrightarrow> searchTerm c = searchTerm c' \<Longrightarrow>
     filteredDocuments l docs c = filteredDocuments l docs' c'"
  by (simp add: filteredDocuments_def Let_def)

lemma filteredDocuments_returns:
  assumes "trim (searchTerm c) = [] \<or> l = En"
  shows "\<exists>r. filteredDocuments l docs c = Inr r"
proof (cases "trim (searchTerm c) = []")
  case True
  then show ?thesis by (simp add: filteredDocuments_def)
next
  case False
  with assms have "l = En" by simp
  obtain scored where
    "map_throwing (score_document En (toLowerCase (searchTerm c))) (facet_filter docs c) = Inr scored"
    using map_throwing_total[of "facet_filter docs c" "score_document En (toLowerCase (searchTerm c))"]
      score_document_En_total by blast
  with False \<open>l = En\<close> show ?thesis by (simp add: filteredDocuments_def)
qed

lemma filteredDocuments_no_match:
  "facet_filter docs c = [] \<Longrightarrow>
     filteredDocuments l docs c
       = Inr (if trim (searchTerm c) = [] then ByDate [] else ByRelevance [])"
  by (simp add: filteredDocuments_def array_sort_def)

text \<open>
  The year constraint \<open>'2023abc'\<close> is neither the wildcard nor a numeral. The call is
  not rejected, and the constraint matches the two initial documents of year 2023.
\<close>

theorem year_2023abc_matches_2023:
  "ascii ''2023abc'' \<noteq> All_str
   \<and> \<not> list_all is_decimal_digit (ascii ''2023abc'')
   \<and> parseInt (ascii ''2023abc'') = Num 2023
   \<and> filteredDocuments En initialDocs (initialFilters\<lparr>yearF := ascii ''2023abc''\<rparr>)
       = Inr (ByDate [doc_3, doc_1])"
  by code_simp

text \<open>
  Claim C8, amended. A year constraint other than the wildcard is never validated and
  is never a reason to reject the call: it goes through \<open>parseInt\<close> and only filters, so
  the call has the outcome of the call with the wildcard year on the documents \<open>d\<close>
  with \<open>d.year === parseInt(constraint)\<close>; with an empty search text after trimming,
  or in the English locale, the pipeline returns a result. When \<open>parseInt\<close> reads no
  integer (\<open>NaN\<close>, as for \<open>'abc'\<close>), the constraint matches no document and the pipeline
  returns the empty result, in either mode and either locale. When it reads an integer
  \<open>n\<close> of magnitude at most \<open>2 ^ 53\<close>, the constraint matches the documents of year
  \<open>n\<close>. In particular a constraint that starts with decimal digits of value at most
  \<open>2 ^ 53\<close> and goes on with a code unit that is not a decimal digit (as \<open>'2023abc'\<close>),
  other than a single \<open>0\<close> followed by \<open>x\<close> or \<open>X\<close>, is silently cut down to those
  digits; the constraint \<open>'0x7E7'\<close> is read in radix 16 as 2023.
\<close>

theorem year_constraint_through_parseInt:
  "(yearF c \<noteq> All_str \<longrightarrow>
      filteredDocuments l docs c
        = filteredDocuments l
            (filter (\<lambda>d. strict_equals (Num (year d)) (parseInt (yearF c))) docs)
            (c\<lparr>yearF := All_str\<rparr>)
    \<and> (trim (searchTerm c) = [] \<or> l = En \<longrightarrow> (\<exists>r. filteredDocuments l docs c = Inr r))
    \<and> (parseInt (yearF c) = NaN \<longrightarrow>
          facet_filter docs c = []
        \<and> filteredDocuments l docs c
            = Inr (if trim (searchTerm c) = [] then ByDate [] else ByRelevance []))
    \<and> (\<forall>n. parseInt (yearF c) = Num n \<and> \<bar>n\<bar> \<le> 2 ^ 53 \<longrightarrow>
          facet_filter docs c
            = filter (\<lambda>d. year d = n) (facet_filter docs (c\<lparr>yearF := All_str\<rparr>))))
   \<and> (ds \<noteq> [] \<and> list_all is_decimal_digit ds \<and> digits_value 10 ds \<le> 2 ^ 53
        \<and> rest \<noteq> [] \<and> \<not> is_decimal_digit (hd rest)
        \<and> \<not> (ds = [0x30] \<and> (hd rest = 0x78 \<or> hd rest = 0x58)) \<longrightarrow>
      parseInt (ds @ rest) = Num (int (digits_value 10 ds)))
   \<and> parseInt (ascii ''0x7E7'') = Num 2023"
proof (intro conjI impI allI)
  assume y: "yearF c \<noteq> All_str"
  show "filteredDocuments l docs c
        = filteredDocuments l
            (filter (\<lambda>d. strict_equals (Num (year d)) (parseInt (yearF c))) docs)
            (c\<lparr>yearF := All_str\<rparr>)"
    by (rule filteredDocuments_cong) (simp_all add: facet_filter_year_split[OF y])
next
  assume "trim (searchTerm c) = [] \<or> l = En"
  then show "\<exists>r. filteredDocuments l docs c = Inr r" by (rule filteredDocuments_returns)
next
  assume "yearF c \<noteq> All_str" and "parseInt (yearF c) = NaN"
  then show e: "facet_filter docs c = []" by (rule year_NaN_no_match)
  then show "filteredDocuments l docs c
            = Inr (if trim (searchTerm c) = [] then ByDate [] else ByRelevance [])"
    by (rule filteredDocuments_no_match)
next
  fix n
  assume "yearF c \<noteq> All_str" and "parseInt (yearF c) = Num n \<and> \<bar>n\<bar> \<le> 2 ^ 53"
  then show "facet_filter docs c
       = filter (\<lambda>d. year d = n) (facet_filter docs (c\<lparr>yearF := All_str\<rparr>))"
    by (intro year_Num_match) simp_all
next
  assume h: "ds \<noteq> [] \<and> list_all is_decimal_digit ds \<and> digits_value 10 ds \<le> 2 ^ 53
        \<and> rest \<noteq> [] \<and> \<not> is_decimal_digit (hd rest)
        \<and> \<not> (ds = [0x30] \<and> (hd rest = 0x78 \<or> hd rest = 0x58))"
  then show "parseInt (ds @ rest) = Num (int (digits_value 10 ds))"
    by (intro parseInt_decimal_prefix) (auto simp: list_all_iff is_digit_of_10)
next
  show "parseInt (ascii ''0x7E7'') = Num 2023" by code_simp
qed

theorem year_constraint_through_parseInt_witness:
  "yearF (initialFilters\<lparr>searchTerm := ascii ''p'', yearF := ascii ''abc''\<rparr>) \<noteq> All_str
   \<and> parseInt (yearF (initialFilters\<lparr>searchTerm := ascii ''p'', yearF := ascii ''abc''\<rparr>)) = NaN
   \<and> facet_filter initialDocs (initialFilters\<lparr>searchTerm := ascii ''p'', yearF := ascii ''abc''\<rparr>) = []
   \<and> filteredDocuments Zh initialDocs (initialFilters\<lparr>searchTerm := ascii ''p'', yearF := ascii ''abc''\<rparr>)
       = Inr (ByRelevance [])
   \<and> yearF (initialFilters\<lparr>yearF := ascii ''2023abc''\<rparr>) \<noteq> All_str
   \<and> parseInt (yearF (initialFilters\<lparr>yearF := ascii ''2023abc''\<rparr>)) = Num 2023
   \<and> \<bar>2023 :: int\<bar> \<le> 2 ^ 53
   \<and> facet_filter initialDocs (initialFilters\<lparr>yearF := ascii ''2023abc''\<rparr>)
       = filter (\<lambda>d. year d = 2023) initialDocs
   \<and> filteredDocuments En initialDocs (initialFilters\<lparr>yearF := ascii ''2023abc''\<rparr>)
       = filteredDocuments En [doc_1, doc_3] initialFilters
   \<and> (\<exists>r. filteredDocuments En initialDocs (initialFilters\<lparr>yearF := ascii ''2023abc''\<rparr>) = Inr r)
   \<and> parseInt (ascii ''2023'' @ ascii ''abc'') = Num (int (digits_value 10 (ascii ''2023'')))
   \<and> digits_value 10 (ascii ''2023'') = 2023"
proof -
  let ?c1 = "initialFilters\<lparr>searchTerm := ascii ''p'', yearF := ascii ''abc''\<rparr>"
  let ?c2 = "initialFilters\<lparr>yearF := ascii ''2023abc''\<rparr>"
  note T1 = year_constraint_through_parseInt[of ?c1 Zh initialDocs "ascii ''2023''" "ascii ''abc''"]
  note T2 = year_constraint_through_parseInt[of ?c2 En initialDocs "ascii ''2023''" "ascii ''abc''"]
  have a1: "yearF ?c1 \<noteq> All_str"
    by code_simp
  have a2: "parseInt (yearF ?c1) = NaN"
    by code_simp
  have a3: "trim (searchTerm ?c1) \<noteq> []"
    by code_simp
  have b1: "yearF ?c2 \<noteq> All_str"
    by code_simp
  have b2: "parseInt (yearF ?c2) = Num 2023"
    by code_simp
  have b3: "trim (searchTerm ?c2) = []"
    by code_simp
  have b4: "\<bar>2023 :: int\<bar> \<le> 2 ^ 53"
    by simp
  have w1: "facet_filter initialDocs (?c2\<lparr>yearF := All_str\<rparr>) = initialDocs"
    by code_simp
  have w2: "?c2\<lparr>yearF := All_str\<rparr> = initialFilters"
    by code_simp
  have w3: "filter (\<lambda>d. strict_equals (Num (year d)) (Num 2023)) initialDocs = [doc_1, doc_3]"
    by code_simp
  have v: "digits_value 10 (ascii ''2023'') = 2023"
    by code_simp
  have u: "digits_value 10 (ascii ''2023'') \<le> 2 ^ 53"
    unfolding v by simp
  have d0: "ascii ''2023'' \<noteq> [] \<and> list_all is_decimal_digit (ascii ''2023'')"
    by code_simp
  have d1: "ascii ''abc'' \<noteq> [] \<and> \<not> is_decimal_digit (hd (ascii ''abc''))
      \<and> \<not> (ascii ''2023'' = [0x30] \<and> (hd (ascii ''abc'') = 0x78 \<or> hd (ascii ''abc'') = 0x58))"
    by code_simp
  from d0 u d1 have d: "ascii ''2023'' \<noteq> [] \<and> list_all is_decimal_digit (ascii ''2023'')
      \<and> digits_value 10 (ascii ''2023'') \<le> 2 ^ 53
      \<and> ascii ''abc'' \<noteq> [] \<and> \<not> is_decimal_digit (hd (ascii ''abc''))
      \<and> \<not> (ascii ''2023'' = [0x30] \<and> (hd (ascii ''abc'') = 0x78 \<or> hd (ascii ''abc'') = 0x58))"
    by blast
  from T1 a1 a2 have r1: "facet_filter initialDocs ?c1 = []"
    by blast
  from T1 a1 a2 have "filteredDocuments Zh initialDocs ?c1
      = Inr (if trim (searchTerm ?c1) = [] then ByDate [] else ByRelevance [])"
    by blast
  with a3 have r2: "filteredDocuments Zh initialDocs ?c1 = Inr (ByRelevance [])"
    by simp
  from T2 b1 b2 b4 have "facet_filter initialDocs ?c2
      = filter (\<lambda>d. year d = 2023) (facet_filter initialDocs (?c2\<lparr>yearF := All_str\<rparr>))"
    by blast
  then have r3: "facet_filter initialDocs ?c2 = filter (\<lambda>d. year d = 2023) initialDocs"
    by (simp only: w1)
  from T2 b1 have "filteredDocuments En initialDocs ?c2
      = filteredDocuments En
          (filter (\<lambda>d. strict_equals (Num (year d)) (parseInt (yearF ?c2))) initialDocs)
          (?c2\<lparr>yearF := All_str\<rparr>)"
    by blast
  then have r4: "filteredDocuments En initialDocs ?c2
      = filteredDocuments En [doc_1, doc_3] initialFilters"
    by (simp only: b2 w2 w3)
  from T2 b1 have r5: "\<exists>r. filteredDocuments En initialDocs ?c2 = Inr r"
    by blast
  from T2 d have r6: "parseInt (ascii ''2023'' @ ascii ''abc'')
      = Num (int (digits_value 10 (ascii ''2023'')))"
    by blast
  show ?thesis
    by (intro conjI) (fact a1 a2 r1 r2 b1 b2 b4 r3 r4 r5 r6 v)+
qed

section \<open>The end-to-end example\<close>

text \<open>
  The example of the specification: the documents \<open>'Executive Committee Meeting
  Minutes'\<close> and \<open>'Monthly Financial Report'\<close>, all-wildcard criteria, the query
  \<open>report\<close>, the English locale. The result is not the second document with score 3.
\<close>

theorem example_score_is_not_3:
  "filteredDocuments En [doc_1, doc_3] (initialFilters\<lparr>searchTerm := ascii ''report''\<rparr>)
     \<noteq> Inr (ByRelevance [with_score doc_3 3])"
  by code_simp

text \<open>
  Claim C1, amended. In that example the pipeline returns exactly the second document,
  with relevance score 5: 3 for its title and 2 for its document-type label
  \<open>'Budget Report'\<close>, which contains the query too; its department label does not.
  The first document scores 0 and is excluded.
\<close>

theorem example_score_is_5:
  "filteredDocuments En [doc_1, doc_3] (initialFilters\<lparr>searchTerm := ascii ''report''\<rparr>)
     = Inr (ByRelevance [with_score doc_3 5])
   \<and> score_document En (toLowerCase (ascii ''report'')) doc_1 = Inr (with_score doc_1 0)
   \<and> score_document En (toLowerCase (ascii ''report'')) doc_3 = Inr (with_score doc_3 5)
   \<and> includes_str (toLowerCase (title doc_3)) (toLowerCase (ascii ''report''))
   \<and> includes_str (toLowerCase (docType doc_3)) (toLowerCase (ascii ''report''))
   \<and> \<not> includes_str (toLowerCase (department doc_3)) (toLowerCase (ascii ''report''))"
  by code_simp

section \<open>Surrounding white space of the search text\<close>

text \<open>
  Claim C5, at an input where the code departs from it. The search text \<open>'report '\<close>
  with a space at its end is not empty after trimming, so the documents are ranked by
  relevance; the text matched against the fields is the lowercased search text with
  its space, which no field contains, and the result is empty. The same text without
  the space finds the second document.
\<close>

theorem search_text_is_matched_untrimmed:
  "trim (ascii ''report '') = ascii ''report''
   \<and> filteredDocuments En [doc_1, doc_3] (initialFilters\<lparr>searchTerm := ascii ''report ''\<rparr>)
       = Inr (ByRelevance [])
   \<and> filteredDocuments En [doc_1, doc_3] (initialFilters\<lparr>searchTerm := trim (ascii ''report '')\<rparr>)
       = Inr (ByRelevance [with_score doc_3 5])"
  by code_simp

section \<open>Scoring a document whose title names a member of Object.prototype\<close>

text \<open>
  Claim C2, at an input where the code departs from it. The query is the single
  character U+5831, which the Chinese title and type label of the third initial
  document contain. In the Chinese locale the title \<open>'constructor'\<close> is rendered as the
  inherited member, \<open>toLowerCase\<close> on it throws, and the pipeline ends with that
  exception: the document gets no score, and the matching document is not returned
  either.
\<close>

theorem scoring_throws_on_inherited_name:
  "trim [0x5831] \<noteq> []
   \<and> score_document Zh (toLowerCase [0x5831]) (doc_1\<lparr>title := ascii ''constructor''\<rparr>)
       = Inl TypeError
   \<and> filteredDocuments Zh [doc_1\<lparr>title := ascii ''constructor''\<rparr>, doc_3]
         (initialFilters\<lparr>searchTerm := [0x5831]\<rparr>)
       = Inl TypeError
   \<and> filteredDocuments Zh [doc_1, doc_3] (initialFilters\<lparr>searchTerm := [0x5831]\<rparr>)
       = Inr (ByRelevance [with_score doc_3 5])"
  by code_simp

end
